theory Spec2Isabelle
  imports Complex_Main "HOL-Library.Product_Lexorder"
begin

section \<open>GLODAP surface-observation pipeline: a shallow embedding\<close>

text \<open>
  The development follows the two Python modules of the repository,
  \<^verbatim>\<open>obs_to_model.py\<close> (grid templates and the ungridded-to-gridded matcher) and
  \<^verbatim>\<open>GLODAP.py\<close> (quality filter, date filter and surface selection).

  Conventions of the embedding.
  \<^item> A \<^verbatim>\<open>float64\<close> is a \<^typ>\<open>real\<close>: arithmetic is exact, rounding is not modelled.
    A missing value (\<^verbatim>\<open>NaN\<close>) is \<^term>\<open>None\<close> of an option type wherever the code can
    produce or test one.
  \<^item> A \<^verbatim>\<open>datetime64[ns]\<close> or \<^verbatim>\<open>timedelta64[ns]\<close> is an \<^typ>\<open>int\<close>, the count of
    nanoseconds; the 64-bit range and \<^verbatim>\<open>NaT\<close> are not modelled.
  \<^item> A raised exception is the \<^term>\<open>Inl\<close> branch of a sum type.
  \<^item> The numpy, pandas and xarray primitives the code calls (\<^verbatim>\<open>np.diff\<close>, \<^verbatim>\<open>np.arange\<close>,
    \<^verbatim>\<open>pd.cut\<close>, \<^verbatim>\<open>groupby\<close>, \<^verbatim>\<open>idxmin\<close>, \<^verbatim>\<open>dropna\<close>, \<^verbatim>\<open>pd.to_datetime\<close>,
    \<^verbatim>\<open>pd.date_range\<close>) are
    modelled after their documented behaviour for the arguments the code passes.
\<close>

datatype error = AssertionError string | IndexError | ValueError string | KeyError | TypeError string

subsection \<open>The matcher: bin edges and bin assignment\<close>

text \<open>\<^verbatim>\<open>np.diff(a)\<close>: the differences \<^verbatim>\<open>a[i+1] - a[i]\<close>, one fewer than the entries.\<close>

definition np_diff :: "'a::minus list \<Rightarrow> 'a list" where
  "np_diff xs = map (\<lambda>(a, b). b - a) (zip xs (tl xs))"

text \<open>
  The precondition \<^verbatim>\<open>all(xda.lat.diff('lat') > 0)\<close> (for the time axis, \<^verbatim>\<open>> np.timedelta64('0', 'D')\<close>).
\<close>

definition strictly_increasing :: "'a::{minus,zero,ord} list \<Rightarrow> bool" where
  "strictly_increasing xs = list_all (\<lambda>d. 0 < d) (np_diff xs)"

text \<open>
  \<^verbatim>\<open>np.diff(dim) / 2\<close> depends on the dtype of the axis. On the \<^verbatim>\<open>float64\<close> axes (lat, lon) it
  is division by two. On the time axis \<^verbatim>\<open>np.diff\<close> yields \<^verbatim>\<open>timedelta64[ns]\<close>, and
  numpy divides a \<^verbatim>\<open>timedelta64\<close> by an integer with C integer division on the
  nanosecond count: the quotient is truncated towards zero.
\<close>

definition half_float :: "real \<Rightarrow> real" where
  "half_float d = d / 2"

definition half_timedelta :: "int \<Rightarrow> int" where
  "half_timedelta d = (if 0 \<le> d then d div 2 else - ((- d) div 2))"

text \<open>
  \<^verbatim>\<open>
  def make_bins(dim):
      delta = np.diff(dim) / 2
      bins = np.r_[dim[0] - delta[0], dim[1:] - delta, dim[-1] + delta[-1]]
      return bins
  \<close>
  \<^verbatim>\<open>dim[0]\<close> raises \<^verbatim>\<open>IndexError\<close> on an empty axis and \<^verbatim>\<open>delta[0]\<close> on an axis of one
  entry. The axis is called \<open>ax\<close> here (\<open>dim\<close> is a constant of the library).
\<close>

definition make_bins :: "('a \<Rightarrow> 'a) \<Rightarrow> 'a::{plus,minus} list \<Rightarrow> error + 'a list" where
  "make_bins half ax =
     (let delta = map half (np_diff ax) in
      if ax = [] \<or> delta = [] then Inl IndexError
      else Inr ([hd ax - hd delta]
                @ map (\<lambda>(v, d). v - d) (zip (tl ax) delta)
                @ [last ax + last delta]))"

text \<open>
  \<^verbatim>\<open>bins.searchsorted(v, side='left')\<close> on sorted bins: the number of edges strictly
  below \<open>v\<close>.
\<close>

definition searchsorted_left :: "'a::linorder list \<Rightarrow> 'a \<Rightarrow> nat" where
  "searchsorted_left bins v = length (takeWhile (\<lambda>b. b < v) bins)"

text \<open>
  \<^verbatim>\<open>pd.cut(x, bins, labels=labels)\<close> with the defaults the code leaves in place
  (\<^verbatim>\<open>right=True\<close>, \<^verbatim>\<open>include_lowest=False\<close>, \<^verbatim>\<open>duplicates='raise'\<close>): the edges must not
  decrease and must be distinct, there is one label per interval, and a value \<open>v\<close> gets
  the label of the interval \<open>(bins[i], bins[i+1]]\<close> that holds it, or \<^verbatim>\<open>NaN\<close> when
  \<^verbatim>\<open>searchsorted\<close> returns \<open>0\<close> or \<open>len(bins)\<close>.
\<close>

definition bin_label :: "'a::linorder list \<Rightarrow> nat list \<Rightarrow> 'a \<Rightarrow> nat option" where
  "bin_label bins labels v =
     (let ids = searchsorted_left bins v
      in if ids = 0 \<or> ids = length bins then None else Some (labels ! (ids - 1)))"

definition cut :: "'a::linorder list \<Rightarrow> 'a list \<Rightarrow> nat list \<Rightarrow> error + nat option list" where
  "cut x bins labels =
     (if \<not> sorted bins then Inl (ValueError ''bins must increase monotonically.'')
      else if \<not> distinct bins \<and> length bins \<noteq> 2 then Inl (ValueError ''Bin edges must be unique'')
      else if length labels \<noteq> length bins - 1
        then Inl (ValueError ''Bin labels must be one fewer than the number of bin edges'')
      else Inr (map (bin_label bins labels) x))"

subsection \<open>The matcher: inputs, arrays and aggregation\<close>

text \<open>
  The \<^verbatim>\<open>time\<close> argument is an array with a dtype; \<^verbatim>\<open>np.issubdtype(time, np.datetime64)\<close>
  holds for the first constructor only.
\<close>

datatype time_array = Datetime64 "int list" | Float64 "real list" | Object "string list"

text \<open>
  The \<^verbatim>\<open>variable\<close> argument is a flat array of values or a \<^verbatim>\<open>pandas.Series\<close>, whose
  \<^verbatim>\<open>name\<close> attribute is a string or \<^verbatim>\<open>None\<close>. \<^verbatim>\<open>getattr(variable, 'name', 'out')\<close> is
  \<open>var_name\<close>; \<^verbatim>\<open>name + '_mean'\<close> is a \<^verbatim>\<open>TypeError\<close> when the name is \<^verbatim>\<open>None\<close>.
\<close>

datatype variable = Array "real list" | Series "string option" "real list"

fun var_values :: "variable \<Rightarrow> real list" where
  "var_values (Array vs) = vs"
| "var_values (Series n vs) = vs"


fun var_name :: "variable \<Rightarrow> string option" where
  "var_name (Array vs) = Some ''out''"
| "var_name (Series n vs) = n"

text \<open>
  A three-dimensional \<^verbatim>\<open>ndarray\<close>: its shape and its cells, addressed by
  (time index, lat index, lon index). An index outside the shape is an \<^verbatim>\<open>IndexError\<close>.
\<close>

type_synonym key = "nat \<times> nat \<times> nat"

record 'a ndarray3 =
  shape :: key
  cells :: "key \<Rightarrow> 'a"

fun in_bounds :: "key \<Rightarrow> key \<Rightarrow> bool" where
  "in_bounds (nt, ny, nx) (it, iy, ix) = (it < nt \<and> iy < ny \<and> ix < nx)"

definition setitem :: "'a ndarray3 \<Rightarrow> key \<Rightarrow> 'a \<Rightarrow> error + 'a ndarray3" where
  "setitem arr k v =
     (if in_bounds (shape arr) k then Inr (arr\<lparr>cells := (cells arr)(k := v)\<rparr>)
      else Inl IndexError)"

text \<open>\<^verbatim>\<open>values[it, iy, ix] = column\<close>: one assignment per row of the aggregated table.\<close>

fun scatter :: "'a ndarray3 \<Rightarrow> (key \<times> 'a) list \<Rightarrow> error + 'a ndarray3" where
  "scatter arr [] = Inr arr"
| "scatter arr ((k, v) # rows) =
     (case setitem arr k v of Inl e \<Rightarrow> Inl e | Inr arr' \<Rightarrow> scatter arr' rows)"

text \<open>
  The target \<^verbatim>\<open>xr.DataArray\<close> with its three coordinate axes, and the returned
  \<^verbatim>\<open>xr.Dataset\<close> holding the two named arrays on the same axes.
\<close>

record dataarray =
  xda_time :: "int list"
  xda_lat :: "real list"
  xda_lon :: "real list"
  xda_data :: "real ndarray3"

record dataset =
  xds_time :: "int list"
  xds_lat :: "real list"
  xds_lon :: "real list"
  mean_name :: string
  std_name :: string
  mean_data :: "real option ndarray3"
  std_data :: "real option ndarray3"

text \<open>\<^verbatim>\<open>xda.copy() * np.nan\<close>: every cell becomes \<^verbatim>\<open>NaN\<close>, the shape is kept.\<close>

definition times_nan :: "real ndarray3 \<Rightarrow> real option ndarray3" where
  "times_nan arr = \<lparr>shape = shape arr, cells = (\<lambda>k. None)\<rparr>"

text \<open>
  \<^verbatim>\<open>groupby\<close>: one pass over the keyed rows, appending each value to the group of its
  key. Groups are listed here in order of first appearance; pandas lists them sorted
  by key, and may list label triples that hold no point with \<^verbatim>\<open>NaN\<close> for both
  statistics. The scatter writes each listed cell once and an unwritten cell is
  \<^verbatim>\<open>NaN\<close> already, so the resulting arrays do not depend on either.
\<close>

fun group_insert :: "'k \<Rightarrow> 'v \<Rightarrow> ('k \<times> 'v list) list \<Rightarrow> ('k \<times> 'v list) list" where
  "group_insert k v [] = [(k, [v])]"
| "group_insert k v ((k', vs) # g) =
     (if k = k' then (k', vs @ [v]) # g else (k', vs) # group_insert k v g)"

definition groupby :: "('k \<times> 'v) list \<Rightarrow> ('k \<times> 'v list) list" where
  "groupby kvs = foldl (\<lambda>g (k, v). group_insert k v g) [] kvs"

text \<open>
  The aggregations \<^verbatim>\<open>'mean'\<close> and \<^verbatim>\<open>'std'\<close> of pandas: the arithmetic mean, and the
  sample standard deviation with \<^verbatim>\<open>ddof=1\<close>, which is \<^verbatim>\<open>NaN\<close> for fewer than two values.
\<close>

definition agg_mean :: "real list \<Rightarrow> real option" where
  "agg_mean vs = (if vs = [] then None else Some (sum_list vs / real (length vs)))"

definition agg_std :: "real list \<Rightarrow> real option" where
  "agg_std vs =
     (if length vs \<le> 1 then None
      else let m = sum_list vs / real (length vs)
           in Some (sqrt (sum_list (map (\<lambda>v. (v - m)\<^sup>2) vs) / real (length vs - 1))))"

text \<open>
  The rows that enter the grouping: a point whose label is \<^verbatim>\<open>NaN\<close> on any of the three
  axes belongs to no group.
\<close>

definition point_keys ::
  "nat option list \<Rightarrow> nat option list \<Rightarrow> nat option list \<Rightarrow> real list \<Rightarrow> (key \<times> real) list" where
  "point_keys tidx yidx xidx vals =
     List.map_filter
       (\<lambda>(it, iy, ix, v).
          case (it, iy, ix) of
            (Some a, Some b, Some c) \<Rightarrow> Some ((a, b, c), v)
          | _ \<Rightarrow> None)
       (zip tidx (zip yidx (zip xidx vals)))"

definition bind_err :: "error + 'a \<Rightarrow> ('a \<Rightarrow> error + 'b) \<Rightarrow> error + 'b" where
  "bind_err m f = (case m of Inl e \<Rightarrow> Inl e | Inr a \<Rightarrow> f a)"

text \<open>
  The body of \<^verbatim>\<open>match_ungridded_to_gridded\<close> after its assertions: the three edge
  lists, the three calls of \<^verbatim>\<open>pd.cut\<close> with the labels \<^verbatim>\<open>np.arange(size)\<close>, the grouping
  (which refuses keys whose length differs from the values'), the output names, and
  the two scatters into \<^verbatim>\<open>NaN\<close>-filled copies of the target.
\<close>

definition bin_and_aggregate ::
  "variable \<Rightarrow> int list \<Rightarrow> real list \<Rightarrow> real list \<Rightarrow> dataarray \<Rightarrow> error + dataset" where
  "bin_and_aggregate variable ts lat lon xda =
     (let t = xda_time xda; y = xda_lat xda; x = xda_lon xda in
      bind_err (make_bins half_timedelta t) (\<lambda>tbins.
      bind_err (make_bins half_float y) (\<lambda>ybins.
      bind_err (make_bins half_float x) (\<lambda>xbins.
      bind_err (cut ts tbins [0..<length t]) (\<lambda>tidx.
      bind_err (cut lat ybins [0..<length y]) (\<lambda>yidx.
      bind_err (cut lon xbins [0..<length x]) (\<lambda>xidx.
        if length tidx \<noteq> length (var_values variable)
           \<or> length yidx \<noteq> length (var_values variable)
           \<or> length xidx \<noteq> length (var_values variable)
        then Inl (ValueError ''Grouper and axis must be same length'')
        else
          let df = map (\<lambda>(k, vs). (k, agg_mean vs, agg_std vs))
                     (groupby (point_keys tidx yidx xidx (var_values variable)))
          in case var_name variable of
               None \<Rightarrow> Inl (TypeError ''unsupported operand type(s) for +'')
             | Some name \<Rightarrow>
                 bind_err (scatter (times_nan (xda_data xda)) (map (\<lambda>(k, m, s). (k, m)) df))
                   (\<lambda>mean_arr.
                 bind_err (scatter (times_nan (xda_data xda)) (map (\<lambda>(k, m, s). (k, s)) df))
                   (\<lambda>std_arr.
                   Inr \<lparr>xds_time = t, xds_lat = y, xds_lon = x,
                        mean_name = name @ ''_mean'', std_name = name @ ''_std'',
                        mean_data = mean_arr, std_data = std_arr\<rparr>)))))))))"

text \<open>
  \<^verbatim>\<open>match_ungridded_to_gridded(variable, time, lat, lon, xda)\<close>: the assertions on the
  target axes and on the dtype of \<^verbatim>\<open>time\<close>, in the order of the source, then the body.
  (The message of the longitude assertion is the source's.) The first loop of the
  source asserts that \<^verbatim>\<open>xda\<close> has the three dimensions, which a \<^typ>\<open>dataarray\<close> always has.
\<close>

definition match_ungridded_to_gridded ::
  "variable \<Rightarrow> time_array \<Rightarrow> real list \<Rightarrow> real list \<Rightarrow> dataarray \<Rightarrow> error + dataset" where
  "match_ungridded_to_gridded variable time lat lon xda =
     (if \<not> strictly_increasing (xda_time xda)
        then Inl (AssertionError ''time is not strictly increasing'')
      else if \<not> strictly_increasing (xda_lat xda)
        then Inl (AssertionError ''latitude is not strictly increasing'')
      else if \<not> strictly_increasing (xda_lon xda)
        then Inl (AssertionError ''latitude is not strictly increasing'')
      else case time of
             Datetime64 ts \<Rightarrow> bin_and_aggregate variable ts lat lon xda
           | _ \<Rightarrow> Inl (AssertionError ''time must be in datetime64 format''))"

text \<open>
  The group of a cell in the words of the specification: the values of all input
  points whose (time index, lat index, lon index) triple is that cell, in input order.
\<close>

fun cell_group ::
  "key \<Rightarrow> nat option list \<Rightarrow> nat option list \<Rightarrow> nat option list \<Rightarrow> real list \<Rightarrow> real list" where
  "cell_group (a, b, c) tidx yidx xidx vals =
     map (\<lambda>(it, iy, ix, v). v)
       (filter (\<lambda>(it, iy, ix, v). it = Some a \<and> iy = Some b \<and> ix = Some c)
          (zip tidx (zip yidx (zip xidx vals))))"

subsection \<open>Grid templates\<close>

text \<open>
  \<^verbatim>\<open>np.arange(start, stop, step)\<close>: \<open>ceil((stop - start) / step)\<close> values
  \<open>start + i * step\<close>.
\<close>

definition np_arange :: "real \<Rightarrow> real \<Rightarrow> real \<Rightarrow> real list" where
  "np_arange start stop step =
     map (\<lambda>i. start + real i * step) [0..<nat \<lceil>(stop - start) / step\<rceil>]"


text \<open>
  Calendar arithmetic of the proleptic Gregorian calendar: a civil date is
  (year, month, day); \<open>timestamp_ns\<close> is the \<^verbatim>\<open>datetime64[ns]\<close> of its midnight, the
  nanoseconds since 1970-01-01.
\<close>

type_synonym civil = "int \<times> int \<times> int"

definition is_leap :: "int \<Rightarrow> bool" where
  "is_leap y = (y mod 4 = 0 \<and> (y mod 100 \<noteq> 0 \<or> y mod 400 = 0))"

definition days_in_month :: "int \<Rightarrow> int \<Rightarrow> int" where
  "days_in_month y m =
     (if m = 2 then (if is_leap y then 29 else 28)
      else if m = 4 \<or> m = 6 \<or> m = 9 \<or> m = 11 then 30 else 31)"

definition valid_civil :: "civil \<Rightarrow> bool" where
  "valid_civil c = (case c of (y, m, d) \<Rightarrow> 1 \<le> m \<and> m \<le> 12 \<and> 1 \<le> d \<and> d \<le> days_in_month y m)"

definition days_before_year :: "int \<Rightarrow> int" where
  "days_before_year y =
     365 * (y - 1970) + ((y - 1) div 4 - (y - 1) div 100 + (y - 1) div 400) - 477"

definition days_before_month :: "int \<Rightarrow> int \<Rightarrow> int" where
  "days_before_month y m = sum_list (map (days_in_month y) [1..m - 1])"

definition ns_per_day :: int where
  "ns_per_day = 86400 * 1000000000"

definition timestamp_ns :: "civil \<Rightarrow> int" where
  "timestamp_ns c =
     (case c of (y, m, d) \<Rightarrow> (days_before_year y + days_before_month y m + (d - 1)) * ns_per_day)"






subsection \<open>GLODAP cleaning and surface selection\<close>

text \<open>
  A table is a list of rows; a row gives the cell of every column name. A cell is
  missing (\<^verbatim>\<open>NaN\<close>, \<^verbatim>\<open>NaT\<close>), a number or a timestamp in nanoseconds. A table that
  carries pandas' row index pairs every row with its label.
\<close>

datatype cell = NaN | Num real | Time int

type_synonym row = "string \<Rightarrow> cell"

type_synonym table = "(nat \<times> row) list"

text \<open>
  \<^verbatim>\<open>gd.replace(-9999, np.nan, inplace=True)\<close>.
\<close>

definition replace_missing :: "row list \<Rightarrow> row list" where
  "replace_missing gd = map (\<lambda>r c. if r c = Num (- 9999) then NaN else r c) gd"

text \<open>
  \<^verbatim>\<open>gd.loc[gd.flag != 2, col] = np.nan\<close>; a missing flag differs from 2.
\<close>

definition loc_set_nan :: "string \<Rightarrow> string \<Rightarrow> row list \<Rightarrow> row list" where
  "loc_set_nan flag col gd = map (\<lambda>r. if r flag \<noteq> Num 2 then r(col := NaN) else r) gd"

text \<open>
  \<^verbatim>\<open>gd.dropna(subset=cols, inplace=True)\<close>.
\<close>

definition dropna :: "string list \<Rightarrow> row list \<Rightarrow> row list" where
  "dropna cols gd = filter (\<lambda>r. list_all (\<lambda>c. r c \<noteq> NaN) cols) gd"

text \<open>
  The quality filter of \<^verbatim>\<open>get_GLODAP\<close>: the six flag assignments in the order of the
  source, then the \<^verbatim>\<open>dropna\<close> over the eight required variables.
\<close>

definition select_good :: "row list \<Rightarrow> row list" where
  "select_good gd =
     dropna [''phtsinsitutp'', ''tco2'', ''talk'', ''temperature'', ''salinity'',
             ''pressure'', ''silicate'', ''phosphate'']
       (loc_set_nan ''silicatef'' ''silicate''
       (loc_set_nan ''phosphatef'' ''phosphate''
       (loc_set_nan ''salinityf'' ''salinity''
       (loc_set_nan ''talkf'' ''talk''
       (loc_set_nan ''tco2f'' ''tco2''
       (loc_set_nan ''phtsinsitutpf'' ''phtsinsitutp'' gd))))))"

text \<open>
  The quality filter in the words of the specification: the (value column, flag
  column) pairs, the required variables, and the mask that sets a value to missing
  wherever its flag differs from the good sentinel 2.
\<close>

definition flag_pairs :: "(string \<times> string) list" where
  "flag_pairs = [(''phtsinsitutp'', ''phtsinsitutpf''), (''tco2'', ''tco2f''), (''talk'', ''talkf''),
                 (''salinity'', ''salinityf''), (''phosphate'', ''phosphatef''),
                 (''silicate'', ''silicatef'')]"

definition required_vars :: "string list" where
  "required_vars = [''phtsinsitutp'', ''tco2'', ''talk'', ''temperature'', ''salinity'',
                    ''pressure'', ''silicate'', ''phosphate'']"

definition quality_mask :: "row \<Rightarrow> row" where
  "quality_mask r =
     (\<lambda>c. case map_of flag_pairs c of
            Some flag \<Rightarrow> if r flag = Num 2 then r c else NaN
          | None \<Rightarrow> r c)"

text \<open>
  \<^verbatim>\<open>pd.read_csv(fl)\<close>: the rows of the file, labelled \<open>0, 1, 2, ...\<close>.
\<close>

definition read_csv :: "row list \<Rightarrow> table" where
  "read_csv rows = zip [0..<length rows] rows"

text \<open>
  \<^verbatim>\<open>gd = gd.drop(gd[(gd.month==4) & (gd.day==31)].index)\<close>, commented in the source as
  "Drops the non-existent date April 31st".
\<close>

definition drop_april_31 :: "table \<Rightarrow> table" where
  "drop_april_31 gd = filter (\<lambda>(l, r). \<not> (r ''month'' = Num 4 \<and> r ''day'' = Num 31)) gd"

text \<open>
  \<^verbatim>\<open>pd.to_datetime(gd[['year', 'month', 'day', 'hour']])\<close> for one row. pandas
  assembles the integer \<open>year * 10000 + month * 100 + day\<close>, parses it with the format
  \<^verbatim>\<open>%Y%m%d\<close> and adds the hours as a timedelta. A number that is not a date of the
  calendar raises \<^verbatim>\<open>ValueError\<close>; a missing component gives \<^verbatim>\<open>NaT\<close>.
\<close>

definition to_datetime :: "row \<Rightarrow> error + cell" where
  "to_datetime r =
     (case (r ''year'', r ''month'', r ''day'') of
        (Num y, Num m, Num d) \<Rightarrow>
          if of_int \<lfloor>y\<rfloor> \<noteq> y \<or> of_int \<lfloor>m\<rfloor> \<noteq> m \<or> of_int \<lfloor>d\<rfloor> \<noteq> d
          then Inl (ValueError ''cannot assemble the datetimes'')
          else
            let n = \<lfloor>y\<rfloor> * 10000 + \<lfloor>m\<rfloor> * 100 + \<lfloor>d\<rfloor>;
                c = (n div 10000, n div 100 mod 100, n mod 100)
            in if 1000 \<le> n div 10000 \<and> n div 10000 \<le> 9999 \<and> valid_civil c
               then (case r ''hour'' of
                       Num h \<Rightarrow> Inr (Time (timestamp_ns c + \<lfloor>h * 3600000000000\<rfloor>))
                     | _ \<Rightarrow> Inr NaN)
               else Inl (ValueError ''cannot assemble the datetimes'')
      | _ \<Rightarrow> Inr NaN)"

text \<open>
  A column is computed row by row; the first failure is the failure of the whole.
\<close>

fun sequence_err :: "(error + 'a) list \<Rightarrow> error + 'a list" where
  "sequence_err [] = Inr []"
| "sequence_err (Inl e # xs) = Inl e"
| "sequence_err (Inr a # xs) = (case sequence_err xs of Inl e \<Rightarrow> Inl e | Inr as \<Rightarrow> Inr (a # as))"

definition assign_date :: "table \<Rightarrow> error + table" where
  "assign_date gd =
     sequence_err (map (\<lambda>(l, r). case to_datetime r of
                                   Inl e \<Rightarrow> Inl e
                                 | Inr t \<Rightarrow> Inr (l, r(''date'' := t))) gd)"

text \<open>
  \<^verbatim>\<open>dropna\<close> on a labelled table, and the two derived columns
  (\<^verbatim>\<open>lon_0360\<close> through the row function \<^verbatim>\<open>f\<close> of the source, and
  \<^verbatim>\<open>gd.pressure /= 10\<close>).
\<close>

definition dropna_table :: "string list \<Rightarrow> table \<Rightarrow> table" where
  "dropna_table cols gd = filter (\<lambda>(l, r). list_all (\<lambda>c. r c \<noteq> NaN) cols) gd"

definition lon_0360 :: "row \<Rightarrow> cell" where
  "lon_0360 r = (case r ''longitude'' of Num x \<Rightarrow> if x < 0 then Num (x + 360) else Num x | c \<Rightarrow> c)"

definition pressure_to_bar :: "row \<Rightarrow> cell" where
  "pressure_to_bar r = (case r ''pressure'' of Num p \<Rightarrow> Num (p / 10) | c \<Rightarrow> c)"

text \<open>
  \<^verbatim>\<open>gd.groupby(['cruise','station','cast'])['depth'].idxmin()\<close>: the rows are grouped
  by profile (a row with a missing key column is in no group), the groups are listed
  sorted by key, and each group gives the label of its first row of minimum depth,
  missing depths skipped. For a group whose depths are all missing the result is no
  label of the table, and the following \<^verbatim>\<open>gd.loc[...]\<close> raises (\<^verbatim>\<open>KeyError\<close>).
\<close>

definition profile_key :: "row \<Rightarrow> (real \<times> real \<times> real) option" where
  "profile_key r =
     (case (r ''cruise'', r ''station'', r ''cast'') of
        (Num a, Num b, Num c) \<Rightarrow> Some (a, b, c)
      | _ \<Rightarrow> None)"

definition idxmin :: "(nat \<times> cell) list \<Rightarrow> error + nat" where
  "idxmin xs =
     (case List.map_filter (\<lambda>(l, c). case c of Num d \<Rightarrow> Some (l, d) | _ \<Rightarrow> None) xs of
        [] \<Rightarrow> Inl KeyError
      | y # ys \<Rightarrow> Inr (fst (foldl (\<lambda>best x. if snd x < snd best then x else best) y ys)))"

definition loc :: "table \<Rightarrow> nat \<Rightarrow> error + (nat \<times> row)" where
  "loc gd l = (case map_of gd l of None \<Rightarrow> Inl KeyError | Some r \<Rightarrow> Inr (l, r))"

definition shallowest :: "table \<Rightarrow> error + table" where
  "shallowest gd =
     (let groups = sort_key fst
            (groupby (List.map_filter
               (\<lambda>(l, r). case profile_key r of
                            Some k \<Rightarrow> Some (k, (l, r ''depth''))
                          | None \<Rightarrow> None) gd))
      in bind_err (sequence_err (map (\<lambda>(k, g). idxmin g) groups))
           (\<lambda>labels. sequence_err (map (loc gd) labels)))"

text \<open>
  \<^verbatim>\<open>gd.loc[:, ['date','latitude','lon_0360','depth','pco2']].rename(...).set_index(['time'])\<close>:
  the date becomes the index, the four other columns are renamed.
\<close>

definition gd_sub_row :: "row \<Rightarrow> cell \<times> row" where
  "gd_sub_row r =
     (r ''date'',
      (\<lambda>c. if c = ''lat'' then r ''latitude''
           else if c = ''lon'' then r ''lon_0360''
           else if c = ''depth'' then r ''depth''
           else if c = ''spco2'' then r ''pco2''
           else NaN))"

text \<open>
  \<^verbatim>\<open>gd_sub.where(gd_sub['depth'] <= surface_depth).dropna()\<close>: \<^verbatim>\<open>where\<close> blanks every
  column of a row that fails the condition (a missing depth fails it), \<^verbatim>\<open>dropna\<close>
  then drops every row with a missing column.
\<close>

definition depth_le :: "real \<Rightarrow> row \<Rightarrow> bool" where
  "depth_le surface_depth r = (case r ''depth'' of Num d \<Rightarrow> d \<le> surface_depth | _ \<Rightarrow> False)"

definition where_dropna :: "real \<Rightarrow> (cell \<times> row) list \<Rightarrow> (cell \<times> row) list" where
  "where_dropna surface_depth sub =
     filter (\<lambda>(t, r). list_all (\<lambda>c. r c \<noteq> NaN) [''lat'', ''lon'', ''depth'', ''spco2''])
       (map (\<lambda>(t, r). if depth_le surface_depth r then (t, r) else (t, (\<lambda>c. NaN))) sub)"

text \<open>
  The surface selection of \<^verbatim>\<open>process_GLODAP\<close>, from the \<^verbatim>\<open>groupby\<close> to the return.
\<close>

definition surface_selection :: "table \<Rightarrow> real \<Rightarrow> error + (cell \<times> row) list" where
  "surface_selection gd surface_depth =
     bind_err (shallowest gd)
       (\<lambda>sel. Inr (where_dropna surface_depth (map (\<lambda>(l, r). gd_sub_row r) sel)))"

text \<open>
  \<^verbatim>\<open>process_GLODAP(fl, surface_depth)\<close> on the rows of the file. The carbon-chemistry
  solver \<^verbatim>\<open>cb.Csys(...).pCO2\<close> is an external collaborator: \<open>csys_pco2\<close> gives the
  \<^verbatim>\<open>pco2\<close> cell of a row from the row's measured columns.
\<close>

definition process_GLODAP :: "(row \<Rightarrow> cell) \<Rightarrow> row list \<Rightarrow> real \<Rightarrow> error + (cell \<times> row) list" where
  "process_GLODAP csys_pco2 rows surface_depth =
     bind_err (assign_date (drop_april_31 (read_csv rows)))
       (\<lambda>gd.
          let gd = dropna_table [''phtsinsitutp'', ''temperature'', ''salinity'', ''tco2'', ''talk'',
                                 ''pressure'', ''phosphate'', ''silicate''] gd;
              gd = map (\<lambda>(l, r). (l, r(''lon_0360'' := lon_0360 r))) gd;
              gd = map (\<lambda>(l, r). (l, r(''pressure'' := pressure_to_bar r))) gd;
              gd = map (\<lambda>(l, r). (l, r(''pco2'' := csys_pco2 r))) gd
          in surface_selection gd surface_depth)"


section \<open>Properties of the matcher\<close>

subsection \<open>Bin edges\<close>

lemma length_np_diff: "length (np_diff xs) = length xs - 1"
  by (simp add: np_diff_def)

lemma nth_np_diff: "Suc i < length xs \<Longrightarrow> np_diff xs ! i = xs ! Suc i - xs ! i"
  by (simp add: np_diff_def nth_tl)

lemma strictly_increasing_Cons2:
  "strictly_increasing (x # y # xs) \<longleftrightarrow> (0 < y - x \<and> strictly_increasing (y # xs))"
  by (simp add: strictly_increasing_def np_diff_def)

lemma strictly_increasing_nth:
  fixes xs :: "'a::linordered_ab_group_add list"
  shows "strictly_increasing xs \<longleftrightarrow> (\<forall>i. Suc i < length xs \<longrightarrow> xs ! i < xs ! Suc i)"
  by (auto simp: strictly_increasing_def list_all_length length_np_diff nth_np_diff)

lemma strictly_increasing_sorted_wrt:
  fixes xs :: "'a::linordered_ab_group_add list"
  shows "strictly_increasing xs \<longleftrightarrow> sorted_wrt (<) xs"
  by (simp add: strictly_increasing_nth sorted_wrt_iff_nth_Suc_transp)

lemma make_bins_short: "length ax < 2 \<Longrightarrow> make_bins half ax = Inl IndexError"
  by (cases ax; cases "tl ax") (auto simp: make_bins_def np_diff_def)

lemma make_bins_Inr:
  "make_bins half ax = Inr bins \<longleftrightarrow>
     2 \<le> length ax \<and>
     bins = [hd ax - half (hd (np_diff ax))]
            @ map (\<lambda>(v, d). v - d) (zip (tl ax) (map half (np_diff ax)))
            @ [last ax + half (last (np_diff ax))]"
  by (cases ax; cases "tl ax") (auto simp: make_bins_def np_diff_def Let_def last_map)

lemma make_bins_length:
  assumes "make_bins half ax = Inr bins"
  shows "length bins = length ax + 1"
proof -
  from assms have n: "2 \<le> length ax" and
    b: "bins = [hd ax - half (hd (np_diff ax))]
            @ map (\<lambda>(v, d). v - d) (zip (tl ax) (map half (np_diff ax)))
            @ [last ax + half (last (np_diff ax))]"
    unfolding make_bins_Inr by blast+
  show ?thesis using n by (subst b) (simp add: length_np_diff)
qed









lemma half_timedelta_exact: "even d \<Longrightarrow> half_timedelta d + half_timedelta d = d"
  by (auto simp: half_timedelta_def elim!: evenE)

lemma half_timedelta_proper: "2 \<le> d \<Longrightarrow> 0 < half_timedelta d \<and> half_timedelta d < d"
  by (simp add: half_timedelta_def) linarith

lemma searchsorted_left_between:
  assumes s: "sorted_wrt (<) bins" and i: "Suc i < length bins"
    and lo: "bins ! i < v" and hi: "v \<le> bins ! Suc i"
  shows "searchsorted_left bins v = Suc i"
proof -
  have "takeWhile (\<lambda>b. b < v) bins = take (Suc i) bins"
  proof (rule takeWhile_eq_take_P_nth)
    fix j assume "j < Suc i" "j < length bins"
    then have "bins ! j \<le> bins ! i"
      using s i by (cases "j = i") (auto simp: sorted_wrt_iff_nth_less less_imp_le)
    with lo show "bins ! j < v" by simp
  next
    assume "Suc i < length bins"
    with hi show "\<not> bins ! Suc i < v" by simp
  qed
  with i show ?thesis by (simp add: searchsorted_left_def)
qed

lemma searchsorted_left_low:
  assumes "bins \<noteq> []" and "v \<le> hd bins"
  shows "searchsorted_left bins v = 0"
  using assms by (cases bins) (auto simp: searchsorted_left_def)

lemma searchsorted_left_high:
  assumes s: "sorted_wrt (<) bins" and ne: "bins \<noteq> []" and "last bins < v"
  shows "searchsorted_left bins v = length bins"
proof -
  have "\<forall>b \<in> set bins. b < v"
  proof
    fix b assume "b \<in> set bins"
    then obtain j where j: "j < length bins" "b = bins ! j" by (auto simp: in_set_conv_nth)
    then have "b \<le> last bins"
      using s ne
      by (cases "j = length bins - 1")
         (auto simp: last_conv_nth sorted_wrt_iff_nth_less less_imp_le)
    with assms(3) show "b < v" by simp
  qed
  then have tw: "takeWhile (\<lambda>b. b < v) bins = bins" by (simp add: takeWhile_eq_all_conv)
  show ?thesis unfolding searchsorted_left_def tw ..
qed

lemma cut_ok:
  assumes "sorted_wrt (<) bins" and "length labels = length bins - 1"
  shows "cut x bins labels = Inr (map (bin_label bins labels) x)"
proof -
  from assms(1) have "sorted bins" "distinct bins"
    by (simp_all add: strict_sorted_iff)
  with assms(2) show ?thesis by (simp add: cut_def bin_label_def)
qed

subsection \<open>Bin assignment\<close>

lemma cut_nth:
  fixes bins :: "'a::linordered_ab_group_add list"
  assumes mb: "make_bins half ax = Inr bins" and inc: "strictly_increasing bins"
    and p: "p < length x"
  shows "\<exists>idx. cut x bins [0..<length ax] = Inr idx \<and> length idx = length x
           \<and> idx ! p = (let ids = searchsorted_left bins (x ! p)
                        in if ids = 0 \<or> ids = length bins then None else Some (ids - 1))"
proof -
  from inc have s: "sorted_wrt (<) bins" by (simp add: strictly_increasing_sorted_wrt)
  have l: "length bins = length ax + 1" by (rule make_bins_length[OF mb])
  then have ll: "length [0..<length ax] = length bins - 1" by simp
  have lab: "[0..<length ax] ! (searchsorted_left bins (x ! p) - 1)
               = searchsorted_left bins (x ! p) - 1"
    if "searchsorted_left bins (x ! p) \<noteq> 0" "searchsorted_left bins (x ! p) \<noteq> length bins"
  proof -
    have "searchsorted_left bins (x ! p) \<le> length bins"
      by (simp add: searchsorted_left_def length_takeWhile_le)
    with that l have "searchsorted_left bins (x ! p) - 1 < length ax" by simp
    then show ?thesis by simp
  qed
  show ?thesis
    unfolding cut_ok[OF s ll] using p lab by (simp add: bin_label_def Let_def)
qed

subsection \<open>Grouping, aggregation and scatter\<close>

lemma group_insert_keys:
  "set (map fst (group_insert k v g)) = insert k (set (map fst g))"
proof (induction g)
  case Nil
  show ?case by simp
next
  case (Cons p g)
  obtain k' vs where p: "p = (k', vs)" by (cases p)
  show ?case
  proof (cases "k = k'")
    case True
    then show ?thesis by (simp add: p insert_absorb2)
  next
    case False
    then show ?thesis using Cons.IH by (simp add: p insert_commute)
  qed
qed

lemma group_insert_distinct:
  "distinct (map fst g) \<Longrightarrow> distinct (map fst (group_insert k v g))"
proof (induction g)
  case Nil
  then show ?case by simp
next
  case (Cons p g)
  obtain k' vs where p: "p = (k', vs)" by (cases p)
  from Cons.prems have d: "distinct (map fst g)" and n: "k' \<notin> set (map fst g)"
    by (simp_all add: p)
  show ?case
  proof (cases "k = k'")
    case True
    with d n show ?thesis by (simp add: p)
  next
    case False
    have "k' \<notin> set (map fst (group_insert k v g))"
      using n False by (simp only: group_insert_keys) simp
    with Cons.IH[OF d] False show ?thesis by (simp add: p)
  qed
qed

lemma group_insert_map_of:
  "map_of (group_insert k v g) k' =
     (if k' = k then Some (case map_of g k of None \<Rightarrow> [v] | Some vs \<Rightarrow> vs @ [v])
      else map_of g k')"
  by (induction g) auto

lemma foldl_group_insert_distinct:
  "distinct (map fst g) \<Longrightarrow>
   distinct (map fst (foldl (\<lambda>g (k, v). group_insert k v g) g kvs))"
proof (induction kvs arbitrary: g)
  case Nil
  then show ?case by simp
next
  case (Cons p kvs)
  obtain k v where p: "p = (k, v)" by (cases p)
  from Cons.prems have "distinct (map fst (group_insert k v g))"
    by (rule group_insert_distinct)
  from Cons.IH[OF this] show ?case by (simp add: p)
qed

lemma foldl_group_insert_map_of:
  "map_of (foldl (\<lambda>g (k, v). group_insert k v g) g kvs) k' =
     (case map_of g k' of
        None \<Rightarrow> if map snd (filter (\<lambda>(k, v). k = k') kvs) = [] then None
                else Some (map snd (filter (\<lambda>(k, v). k = k') kvs))
      | Some vs \<Rightarrow> Some (vs @ map snd (filter (\<lambda>(k, v). k = k') kvs)))"
proof (induction kvs arbitrary: g)
  case Nil
  then show ?case by (simp split: option.splits)
next
  case (Cons p kvs)
  obtain k v where p: "p = (k, v)" by (cases p)
  show ?case
  proof (cases "k = k'")
    case True
    then show ?thesis
      by (simp add: p Cons.IH group_insert_map_of split: option.splits)
  next
    case False
    then show ?thesis
      by (simp add: p Cons.IH group_insert_map_of split: option.splits)
  qed
qed

lemma groupby_distinct: "distinct (map fst (groupby kvs))"
  by (simp add: groupby_def foldl_group_insert_distinct)

lemma groupby_map_of:
  "map_of (groupby kvs) k =
     (if map snd (filter (\<lambda>(k', v). k' = k) kvs) = [] then None
      else Some (map snd (filter (\<lambda>(k', v). k' = k) kvs)))"
  by (simp add: groupby_def foldl_group_insert_map_of)

lemma groupby_nonempty: "(k, vs) \<in> set (groupby kvs) \<Longrightarrow> vs \<noteq> []"
proof -
  assume "(k, vs) \<in> set (groupby kvs)"
  then have "map_of (groupby kvs) k = Some vs"
    using groupby_distinct[of kvs] by simp
  then show ?thesis by (auto simp: groupby_map_of split: if_splits)
qed

lemma setitem_Inr:
  "setitem arr k v = Inr arr' \<Longrightarrow>
   shape arr' = shape arr \<and> cells arr' = (cells arr)(k := v)"
  by (auto simp: setitem_def split: if_splits)

lemma scatter_cells:
  "scatter arr rows = Inr arr' \<Longrightarrow> distinct (map fst rows) \<Longrightarrow>
   shape arr' = shape arr \<and>
   cells arr' k = (case map_of rows k of None \<Rightarrow> cells arr k | Some v \<Rightarrow> v)"
proof (induction rows arbitrary: arr)
  case Nil
  then show ?case by simp
next
  case (Cons p rows)
  obtain k' v where p: "p = (k', v)" by (cases p)
  from Cons.prems(1) obtain arr1 where
    s: "setitem arr k' v = Inr arr1" and r: "scatter arr1 rows = Inr arr'"
    by (auto simp: p split: sum.splits)
  from Cons.prems(2) have d: "distinct (map fst rows)" and n: "k' \<notin> fst ` set rows"
    by (simp_all add: p)
  from n have nn: "map_of rows k' = None" by (simp add: map_of_eq_None_iff)
  from Cons.IH[OF r d] setitem_Inr[OF s] nn show ?case
    by (auto simp: p split: option.splits)
qed

lemma point_keys_group:
  "map snd (filter (\<lambda>(k', v). k' = (a, b, c)) (point_keys tidx yidx xidx vals))
     = cell_group (a, b, c) tidx yidx xidx vals"
proof -
  have "map snd (filter (\<lambda>(k', v). k' = (a, b, c))
          (List.map_filter
             (\<lambda>(it, iy, ix, v).
                case (it, iy, ix) of
                  (Some a, Some b, Some c) \<Rightarrow> Some ((a, b, c), v)
                | _ \<Rightarrow> None) zs))
        = map (\<lambda>(it, iy, ix, v). v)
            (filter (\<lambda>(it, iy, ix, v). it = Some a \<and> iy = Some b \<and> ix = Some c) zs)"
    for zs :: "(nat option \<times> nat option \<times> nat option \<times> real) list"
    by (induction zs) (auto simp: List.map_filter_simps split: option.splits)
  then show ?thesis by (simp add: point_keys_def)
qed

lemma scatter_mean_cells:
  assumes "scatter (times_nan d)
             (map (\<lambda>(k, m, s). (k, m))
                (map (\<lambda>(k, vs). (k, agg_mean vs, agg_std vs))
                   (groupby (point_keys tidx yidx xidx vals)))) = Inr mean_arr"
  shows "cells mean_arr (a, b, c) = agg_mean (cell_group (a, b, c) tidx yidx xidx vals)"
proof -
  let ?g = "groupby (point_keys tidx yidx xidx vals)"
  have rows: "map (\<lambda>(k, m, s). (k, m)) (map (\<lambda>(k, vs). (k, agg_mean vs, agg_std vs)) ?g)
                = map (\<lambda>(k, vs). (k, agg_mean vs)) ?g"
    by (simp add: case_prod_unfold)
  have d: "distinct (map fst (map (\<lambda>(k, vs). (k, agg_mean vs)) ?g))"
    using groupby_distinct[of "point_keys tidx yidx xidx vals"]
    by (simp add: case_prod_unfold comp_def)
  have m: "map_of (map (\<lambda>(k, vs). (k, agg_mean vs)) ?g) (a, b, c)
             = map_option agg_mean (map_of ?g (a, b, c))"
    by (simp add: map_of_map)
  from assms have sc: "scatter (times_nan d) (map (\<lambda>(k, vs). (k, agg_mean vs)) ?g) = Inr mean_arr"
    by (simp only: rows)
  from scatter_cells[OF sc d, of "(a, b, c)"] show ?thesis
    by (simp only: m groupby_map_of point_keys_group)
       (simp add: times_nan_def agg_mean_def)
qed

lemma scatter_std_cells:
  assumes "scatter (times_nan d)
             (map (\<lambda>(k, m, s). (k, s))
                (map (\<lambda>(k, vs). (k, agg_mean vs, agg_std vs))
                   (groupby (point_keys tidx yidx xidx vals)))) = Inr std_arr"
  shows "cells std_arr (a, b, c) = agg_std (cell_group (a, b, c) tidx yidx xidx vals)"
proof -
  let ?g = "groupby (point_keys tidx yidx xidx vals)"
  have rows: "map (\<lambda>(k, m, s). (k, s)) (map (\<lambda>(k, vs). (k, agg_mean vs, agg_std vs)) ?g)
                = map (\<lambda>(k, vs). (k, agg_std vs)) ?g"
    by (simp add: case_prod_unfold)
  have d: "distinct (map fst (map (\<lambda>(k, vs). (k, agg_std vs)) ?g))"
    using groupby_distinct[of "point_keys tidx yidx xidx vals"]
    by (simp add: case_prod_unfold comp_def)
  have m: "map_of (map (\<lambda>(k, vs). (k, agg_std vs)) ?g) (a, b, c)
             = map_option agg_std (map_of ?g (a, b, c))"
    by (simp add: map_of_map)
  from assms have sc: "scatter (times_nan d) (map (\<lambda>(k, vs). (k, agg_std vs)) ?g) = Inr std_arr"
    by (simp only: rows)
  from scatter_cells[OF sc d, of "(a, b, c)"] show ?thesis
    by (simp only: m groupby_map_of point_keys_group)
       (simp add: times_nan_def agg_std_def)
qed

lemma bind_err_Inr: "bind_err m f = Inr b \<longleftrightarrow> (\<exists>a. m = Inr a \<and> f a = Inr b)"
  by (cases m) (simp_all add: bind_err_def)

lemma bin_and_aggregate_Inr:
  assumes "bin_and_aggregate variable ts lat lon xda = Inr xds"
  shows "\<exists>tbins ybins xbins tidx yidx xidx.
           make_bins half_timedelta (xda_time xda) = Inr tbins
         \<and> make_bins half_float (xda_lat xda) = Inr ybins
         \<and> make_bins half_float (xda_lon xda) = Inr xbins
         \<and> cut ts tbins [0..<length (xda_time xda)] = Inr tidx
         \<and> cut lat ybins [0..<length (xda_lat xda)] = Inr yidx
         \<and> cut lon xbins [0..<length (xda_lon xda)] = Inr xidx
         \<and> scatter (times_nan (xda_data xda))
              (map (\<lambda>(k, m, s). (k, m))
                (map (\<lambda>(k, vs). (k, agg_mean vs, agg_std vs))
                   (groupby (point_keys tidx yidx xidx (var_values variable)))))
             = Inr (mean_data xds)
         \<and> scatter (times_nan (xda_data xda))
              (map (\<lambda>(k, m, s). (k, s))
                (map (\<lambda>(k, vs). (k, agg_mean vs, agg_std vs))
                   (groupby (point_keys tidx yidx xidx (var_values variable)))))
             = Inr (std_data xds)"
  using assms
  by (auto simp: bin_and_aggregate_def Let_def bind_err_Inr split: if_splits option.splits)

lemma agg_summary:
  "agg_mean g = (if g = [] then None else Some (sum_list g / real (length g)))
   \<and> agg_std g = (if length g \<le> 1 then None
                   else Some (sqrt (sum_list (map (\<lambda>v. (v - sum_list g / real (length g))\<^sup>2) g)
                                    / real (length g - 1))))
   \<and> (\<forall>v. g = [v] \<longrightarrow> agg_mean g = Some v \<and> agg_std g = None)
   \<and> (\<forall>v. g = [v, v] \<longrightarrow> agg_std g = Some 0)"
  by (auto simp: agg_mean_def agg_std_def Let_def)

subsection \<open>Points outside the outermost edges\<close>









section \<open>Properties of the grid templates\<close>

lemma np_arange_unit:
  "nat \<lceil>stop - start\<rceil> = n \<Longrightarrow> np_arange start stop 1 = map (\<lambda>i. start + real i) [0..<n]"
  by (simp add: np_arange_def)

lemma lon_0360: "np_arange 0.5 360 1 = map (\<lambda>i. 1/2 + real i) [0..<360]"
  by (rule np_arange_unit[THEN trans]) simp_all



lemma strictly_increasing_unit_steps:
  "strictly_increasing (map (\<lambda>i. a + real i) [0..<n])"
  by (simp add: strictly_increasing_nth)




section \<open>Properties of the GLODAP cleaning\<close>

lemma six_masks:
  "loc_set_nan ''silicatef'' ''silicate''
       (loc_set_nan ''phosphatef'' ''phosphate''
       (loc_set_nan ''salinityf'' ''salinity''
       (loc_set_nan ''talkf'' ''talk''
       (loc_set_nan ''tco2f'' ''tco2''
       (loc_set_nan ''phtsinsitutpf'' ''phtsinsitutp'' gd))))) = map quality_mask gd"
proof -
  have "(\<lambda>r. if r ''silicatef'' \<noteq> Num 2 then r(''silicate'' := NaN) else r)
        ((\<lambda>r. if r ''phosphatef'' \<noteq> Num 2 then r(''phosphate'' := NaN) else r)
        ((\<lambda>r. if r ''salinityf'' \<noteq> Num 2 then r(''salinity'' := NaN) else r)
        ((\<lambda>r. if r ''talkf'' \<noteq> Num 2 then r(''talk'' := NaN) else r)
        ((\<lambda>r. if r ''tco2f'' \<noteq> Num 2 then r(''tco2'' := NaN) else r)
        ((\<lambda>r. if r ''phtsinsitutpf'' \<noteq> Num 2 then r(''phtsinsitutp'' := NaN) else r) r)))))
        = quality_mask r" for r :: row
    by (rule ext) (simp add: quality_mask_def flag_pairs_def)
  then show ?thesis by (simp add: loc_set_nan_def comp_def)
qed


lemma sequence_err_InrD: "sequence_err xs = Inr ys \<Longrightarrow> xs = map Inr ys"
  by (induction xs arbitrary: ys rule: sequence_err.induct) (auto split: sum.splits)


subsection \<open>Surface selection\<close>






lemma map_eq_map_nth:
  assumes "map f xs = map g ys"
  shows "length xs = length ys \<and> (\<forall>i < length xs. f (xs ! i) = g (ys ! i))"
proof -
  from assms have l: "length xs = length ys" by (rule map_eq_imp_length_eq)
  moreover have "f (xs ! i) = g (ys ! i)" if "i < length xs" for i
  proof -
    from that l have "map f xs ! i = f (xs ! i)" "map g ys ! i = g (ys ! i)" by simp_all
    with assms show ?thesis by simp
  qed
  ultimately show ?thesis by blast
qed





lemma read_csv_distinct: "distinct (map fst (read_csv rows))"
  by (simp add: read_csv_def)

lemma assign_date_labels:
  assumes "assign_date gd = Inr gd'"
  shows "map fst gd' = map fst gd"
proof -
  let ?f = "\<lambda>(l, r). case to_datetime r of
                                   Inl e \<Rightarrow> Inl e
                                 | Inr t \<Rightarrow> Inr (l, r(''date'' := t))"
  from assms have "map ?f gd = map Inr gd'"
    unfolding assign_date_def by (rule sequence_err_InrD)
  from map_eq_map_nth[OF this] have l: "length gd = length gd'"
    and n: "\<forall>i < length gd. ?f (gd ! i) = Inr (gd' ! i)"
    by blast+
  show ?thesis
  proof (rule nth_equalityI)
    show "length (map fst gd') = length (map fst gd)" by (simp add: l)
  next
    fix i assume "i < length (map fst gd')"
    with l have i: "i < length gd" by simp
    with n have "?f (gd ! i) = Inr (gd' ! i)" by blast
    then have "fst (gd' ! i) = fst (gd ! i)"
      by (cases "gd ! i") (auto split: sum.splits dest: arg_cong[where f = fst])
    with i l show "map fst gd' ! i = map fst gd ! i" by simp
  qed
qed

lemma process_GLODAP_stages:
  assumes "process_GLODAP csys_pco2 rows surface_depth = Inr out"
  shows "\<exists>gd sel. distinct (map fst gd) \<and> shallowest gd = Inr sel
           \<and> surface_selection gd surface_depth = Inr out"
proof -
  from assms obtain gd0 where
    a: "assign_date (drop_april_31 (read_csv rows)) = Inr gd0"
    and s: "surface_selection
              (map (\<lambda>(l, r). (l, r(''pco2'' := csys_pco2 r)))
                (map (\<lambda>(l, r). (l, r(''pressure'' := pressure_to_bar r)))
                  (map (\<lambda>(l, r). (l, r(''lon_0360'' := lon_0360 r)))
                    (dropna_table [''phtsinsitutp'', ''temperature'', ''salinity'', ''tco2'',
                                   ''talk'', ''pressure'', ''phosphate'', ''silicate''] gd0))))
              surface_depth = Inr out"
    unfolding process_GLODAP_def bind_err_Inr Let_def by blast
  let ?gd = "map (\<lambda>(l, r). (l, r(''pco2'' := csys_pco2 r)))
                (map (\<lambda>(l, r). (l, r(''pressure'' := pressure_to_bar r)))
                  (map (\<lambda>(l, r). (l, r(''lon_0360'' := lon_0360 r)))
                    (dropna_table [''phtsinsitutp'', ''temperature'', ''salinity'', ''tco2'',
                                   ''talk'', ''pressure'', ''phosphate'', ''silicate''] gd0)))"
  have "distinct (map fst (drop_april_31 (read_csv rows)))"
    unfolding drop_april_31_def by (rule distinct_map_filter) (rule read_csv_distinct)
  then have "distinct (map fst gd0)" by (simp add: assign_date_labels[OF a])
  then have "distinct (map fst (dropna_table [''phtsinsitutp'', ''temperature'', ''salinity'',
                 ''tco2'', ''talk'', ''pressure'', ''phosphate'', ''silicate''] gd0))"
    unfolding dropna_table_def by (rule distinct_map_filter)
  then have d: "distinct (map fst ?gd)" by (simp add: comp_def case_prod_unfold)
  from s obtain sel where "shallowest ?gd = Inr sel"
    by (auto simp: surface_selection_def bind_err_Inr)
  with d s show ?thesis by blast
qed

section \<open>The properties stated by the specification\<close>







text \<open>
  Claim C3. Whenever the matcher returns, every cell of the mean array holds the
  arithmetic mean, and every cell of the std array the sample standard deviation
  with \<open>N - 1\<close> denominator, of the group of input values sharing that cell's
  (time index, lat index, lon index) triple; a cell with no point is missing in both.
  A singleton group has mean equal to its one observation and a missing standard
  deviation; a group of two identical observations has standard deviation zero.
\<close>

theorem cell_statistics:
  assumes "match_ungridded_to_gridded variable time lat lon xda = Inr xds"
  shows "\<exists>ts tbins ybins xbins tidx yidx xidx.
           time = Datetime64 ts
         \<and> make_bins half_timedelta (xda_time xda) = Inr tbins
         \<and> make_bins half_float (xda_lat xda) = Inr ybins
         \<and> make_bins half_float (xda_lon xda) = Inr xbins
         \<and> cut ts tbins [0..<length (xda_time xda)] = Inr tidx
         \<and> cut lat ybins [0..<length (xda_lat xda)] = Inr yidx
         \<and> cut lon xbins [0..<length (xda_lon xda)] = Inr xidx
         \<and> (\<forall>k. let g = cell_group k tidx yidx xidx (var_values variable) in
                cells (mean_data xds) k
                  = (if g = [] then None else Some (sum_list g / real (length g)))
              \<and> cells (std_data xds) k
                  = (if length g \<le> 1 then None
                     else Some (sqrt (sum_list (map (\<lambda>v. (v - sum_list g / real (length g))\<^sup>2) g)
                                      / real (length g - 1))))
              \<and> (\<forall>v. g = [v] \<longrightarrow>
                     cells (mean_data xds) k = Some v \<and> cells (std_data xds) k = None)
              \<and> (\<forall>v. g = [v, v] \<longrightarrow> cells (std_data xds) k = Some 0))"
proof -
  from assms obtain ts where t: "time = Datetime64 ts"
    and b: "bin_and_aggregate variable ts lat lon xda = Inr xds"
    by (auto simp: match_ungridded_to_gridded_def split: if_splits time_array.splits)
  from bin_and_aggregate_Inr[OF b] obtain tbins ybins xbins tidx yidx xidx where
    e: "make_bins half_timedelta (xda_time xda) = Inr tbins"
       "make_bins half_float (xda_lat xda) = Inr ybins"
       "make_bins half_float (xda_lon xda) = Inr xbins"
       "cut ts tbins [0..<length (xda_time xda)] = Inr tidx"
       "cut lat ybins [0..<length (xda_lat xda)] = Inr yidx"
       "cut lon xbins [0..<length (xda_lon xda)] = Inr xidx"
    and sm: "scatter (times_nan (xda_data xda))
              (map (\<lambda>(k, m, s). (k, m))
                (map (\<lambda>(k, vs). (k, agg_mean vs, agg_std vs))
                   (groupby (point_keys tidx yidx xidx (var_values variable)))))
             = Inr (mean_data xds)"
    and ss: "scatter (times_nan (xda_data xda))
              (map (\<lambda>(k, m, s). (k, s))
                (map (\<lambda>(k, vs). (k, agg_mean vs, agg_std vs))
                   (groupby (point_keys tidx yidx xidx (var_values variable)))))
             = Inr (std_data xds)"
    by blast
  have cellm: "cells (mean_data xds) k = agg_mean (cell_group k tidx yidx xidx (var_values variable))"
    for k using scatter_mean_cells[OF sm] by (cases k) simp
  have cells: "cells (std_data xds) k = agg_std (cell_group k tidx yidx xidx (var_values variable))"
    for k using scatter_std_cells[OF ss] by (cases k) simp
  have "\<forall>k. let g = cell_group k tidx yidx xidx (var_values variable) in
                cells (mean_data xds) k
                  = (if g = [] then None else Some (sum_list g / real (length g)))
              \<and> cells (std_data xds) k
                  = (if length g \<le> 1 then None
                     else Some (sqrt (sum_list (map (\<lambda>v. (v - sum_list g / real (length g))\<^sup>2) g)
                                      / real (length g - 1))))
              \<and> (\<forall>v. g = [v] \<longrightarrow>
                     cells (mean_data xds) k = Some v \<and> cells (std_data xds) k = None)
              \<and> (\<forall>v. g = [v, v] \<longrightarrow> cells (std_data xds) k = Some 0)"
    unfolding Let_def cellm cells using agg_summary by blast
  with t e show ?thesis by blast
qed

theorem cell_statistics_witness:
  "\<exists>xds. match_ungridded_to_gridded (Array [10, 20, 7, 3, 3, 99])
       (Datetime64 [1, 2, 12, 20, 21, 100])
       [2/5, -1/5, 1, -1, -6/5, 0] [1/2, 1, 3/2, 17/10, 6/5, 1]
       \<lparr>xda_time = [0, 10, 20], xda_lat = [-1, 0, 1], xda_lon = [1/2, 3/2],
        xda_data = \<lparr>shape = (3, 3, 2), cells = (\<lambda>k. 0)\<rparr>\<rparr> = Inr xds
     \<and> cells (mean_data xds) (0, 1, 0) = Some 15
     \<and> cells (mean_data xds) (1, 2, 1) = Some 7
     \<and> cells (std_data xds) (1, 2, 1) = None
     \<and> cells (mean_data xds) (2, 0, 1) = Some 3
     \<and> cells (std_data xds) (2, 0, 1) = Some 0
     \<and> cells (mean_data xds) (0, 0, 0) = None"
proof -
  let ?xda = "\<lparr>xda_time = [0, 10, 20], xda_lat = [-1, 0, 1], xda_lon = [1/2, 3/2],
        xda_data = \<lparr>shape = (3, 3, 2), cells = (\<lambda>k. 0)\<rparr>\<rparr>"
  let ?vals = "[10, 20, 7, 3, 3, 99 :: real]"
  have "\<exists>xds. match_ungridded_to_gridded (Array ?vals)
       (Datetime64 [1, 2, 12, 20, 21, 100])
       [2/5, -1/5, 1, -1, -6/5, 0] [1/2, 1, 3/2, 17/10, 6/5, 1] ?xda = Inr xds"
    by (simp add: match_ungridded_to_gridded_def strictly_increasing_def np_diff_def
      bin_and_aggregate_def make_bins_def half_timedelta_def half_float_def cut_def bin_label_def
      searchsorted_left_def bind_err_def point_keys_def List.map_filter_simps groupby_def
      times_nan_def setitem_def Let_def)
  then obtain xds where m: "match_ungridded_to_gridded (Array ?vals)
       (Datetime64 [1, 2, 12, 20, 21, 100])
       [2/5, -1/5, 1, -1, -6/5, 0] [1/2, 1, 3/2, 17/10, 6/5, 1] ?xda = Inr xds" ..
  from cell_statistics[OF m] obtain ts tbins ybins xbins tidx yidx xidx where
    ts: "Datetime64 [1, 2, 12, 20, 21, 100] = Datetime64 ts"
    and tb: "make_bins half_timedelta (xda_time ?xda) = Inr tbins"
    and yb: "make_bins half_float (xda_lat ?xda) = Inr ybins"
    and xb: "make_bins half_float (xda_lon ?xda) = Inr xbins"
    and ti: "cut ts tbins [0..<length (xda_time ?xda)] = Inr tidx"
    and yi: "cut [2/5, -1/5, 1, -1, -6/5, 0] ybins [0..<length (xda_lat ?xda)] = Inr yidx"
    and xi: "cut [1/2, 1, 3/2, 17/10, 6/5, 1] xbins [0..<length (xda_lon ?xda)] = Inr xidx"
    and c: "\<forall>k. let g = cell_group k tidx yidx xidx (var_values (Array ?vals)) in
                cells (mean_data xds) k
                  = (if g = [] then None else Some (sum_list g / real (length g)))
              \<and> cells (std_data xds) k
                  = (if length g \<le> 1 then None
                     else Some (sqrt (sum_list (map (\<lambda>v. (v - sum_list g / real (length g))\<^sup>2) g)
                                      / real (length g - 1))))
              \<and> (\<forall>v. g = [v] \<longrightarrow>
                     cells (mean_data xds) k = Some v \<and> cells (std_data xds) k = None)
              \<and> (\<forall>v. g = [v, v] \<longrightarrow> cells (std_data xds) k = Some 0)"
    by blast
  from tb have tbins: "tbins = [-5, 5, 15, 25]"
    by (simp add: make_bins_def np_diff_def half_timedelta_def)
  from yb have ybins: "ybins = [-3/2, -1/2, 1/2, 3/2]"
    by (simp add: make_bins_def np_diff_def half_float_def)
  from xb have xbins: "xbins = [0, 1, 2]"
    by (simp add: make_bins_def np_diff_def half_float_def)
  from ts ti have tidx: "tidx = [Some 0, Some 0, Some 1, Some 2, Some 2, None]"
    by (auto simp: tbins cut_def bin_label_def searchsorted_left_def)
  from yi have yidx: "yidx = [Some 1, Some 1, Some 2, Some 0, Some 0, Some 1]"
    by (auto simp: ybins cut_def bin_label_def searchsorted_left_def)
  from xi have xidx: "xidx = [Some 0, Some 0, Some 1, Some 1, Some 1, Some 0]"
    by (auto simp: xbins cut_def bin_label_def searchsorted_left_def)
  from c[rule_format, of "(0, 1, 0)"] have r1: "cells (mean_data xds) (0, 1, 0) = Some 15"
    by (simp add: tidx yidx xidx Let_def)
  from c[rule_format, of "(1, 2, 1)"]
  have r2: "cells (mean_data xds) (1, 2, 1) = Some 7 \<and> cells (std_data xds) (1, 2, 1) = None"
    by (simp add: tidx yidx xidx Let_def)
  from c[rule_format, of "(2, 0, 1)"]
  have r3: "cells (mean_data xds) (2, 0, 1) = Some 3 \<and> cells (std_data xds) (2, 0, 1) = Some 0"
    by (simp add: tidx yidx xidx Let_def)
  from c[rule_format, of "(0, 0, 0)"] have r4: "cells (mean_data xds) (0, 0, 0) = None"
    by (simp add: tidx yidx xidx Let_def)
  from m r1 r2 r3 r4 show ?thesis by blast
qed





text \<open>
  Claim C6. The bins are left-open and right-closed. A point lying exactly on an
  interior edge \<open>bins[i]\<close> (\<open>0 < i < N\<close>) is assigned the lower index \<open>i - 1\<close>; a point
  on the lowest outer edge \<open>bins[0]\<close> gets no index and is dropped; a point on the
  highest outer edge \<open>bins[N]\<close> is assigned the last index \<open>N - 1\<close>.
\<close>

theorem edge_value_lower_bin:
  fixes bins :: "'a::linordered_ab_group_add list"
  assumes mb: "make_bins half ax = Inr bins" and binc: "strictly_increasing bins"
    and p: "p < length x" and i: "i \<le> length ax" and v: "x ! p = bins ! i"
  shows "\<exists>idx. cut x bins [0..<length ax] = Inr idx
           \<and> idx ! p = (if i = 0 then None else Some (i - 1))"
proof -
  from binc have s: "sorted_wrt (<) bins" by (simp add: strictly_increasing_sorted_wrt)
  have l: "length bins = length ax + 1" by (rule make_bins_length[OF mb])
  then have ne: "bins \<noteq> []" by auto
  have ss: "searchsorted_left bins (x ! p) = i"
  proof (cases i)
    case 0
    with v ne have "x ! p \<le> hd bins" by (simp add: hd_conv_nth)
    with ne 0 show ?thesis by (simp add: searchsorted_left_low)
  next
    case (Suc j)
    with i l have j: "Suc j < length bins" by simp
    with s have "bins ! j < bins ! Suc j" by (simp add: sorted_wrt_iff_nth_less)
    with v Suc have "bins ! j < x ! p" "x ! p \<le> bins ! Suc j" by simp_all
    with s j Suc show ?thesis by (simp add: searchsorted_left_between)
  qed
  from i l have "i \<noteq> length bins" by simp
  with cut_nth[OF mb binc p] ss show ?thesis by (auto simp: Let_def)
qed

theorem edge_value_lower_bin_witness:
  "make_bins half_float [-1, 0, 1] = Inr [-3/2, -1/2, 1/2, 3/2]
   \<and> strictly_increasing [-3/2, -1/2, 1/2, 3/2 :: real]
   \<and> cut [-3/2, -1/2, 1/2, 3/2 :: real] [-3/2, -1/2, 1/2, 3/2] [0..<3]
       = Inr [None, Some 0, Some 1, Some 2]"
proof -
  let ?bins = "[-3/2, -1/2, 1/2, 3/2 :: real]"
  have h1: "make_bins half_float [-1, 0, 1] = Inr ?bins"
    by (simp add: make_bins_def np_diff_def half_float_def)
  have h2: "strictly_increasing ?bins"
    by (simp add: strictly_increasing_def np_diff_def)
  have h3: "1 < length ?bins" by simp
  have h4: "1 \<le> length [-1, 0, 1 :: real]" by simp
  have h5: "?bins ! 1 = ?bins ! 1" by simp
  from edge_value_lower_bin[OF h1 h2 h3 h4 h5]
  have "\<exists>idx. cut ?bins ?bins [0..<length [-1, 0, 1 :: real]] = Inr idx \<and> idx ! 1 = Some 0"
    by simp
  moreover have "cut ?bins ?bins [0..<3] = Inr [None, Some 0, Some 1, Some 2]"
    by (simp add: cut_def bin_label_def searchsorted_left_def upt_rec[of 0] upt_rec[of 1] upt_rec[of 2])
  ultimately show ?thesis using h1 h2 by simp
qed





text \<open>
  Claim C9. The quality filter is, row by row, the mask that for each of the six
  (value column, flag column) pairs sets the value to missing when its flag differs
  from 2 and leaves it, and every other column, unchanged when the flag is 2,
  followed by dropping every record that misses any of the eight required variables.
  With flags \<open>[2, 2, 4]\<close> and values \<open>[10, 20, 30]\<close> the third value becomes missing and
  the first two stay.
\<close>

theorem quality_filter:
  "select_good gd = filter (\<lambda>r. \<forall>c \<in> set required_vars. r c \<noteq> NaN) (map quality_mask gd)
   \<and> (\<forall>r col flag. (col, flag) \<in> set flag_pairs \<longrightarrow>
          quality_mask r col = (if r flag = Num 2 then r col else NaN))
   \<and> (\<forall>r c. c \<notin> fst ` set flag_pairs \<longrightarrow> quality_mask r c = r c)
   \<and> map (\<lambda>r. r ''tco2'')
         (loc_set_nan ''tco2f'' ''tco2''
            [(\<lambda>c. NaN)(''tco2'' := Num 10, ''tco2f'' := Num 2),
             (\<lambda>c. NaN)(''tco2'' := Num 20, ''tco2f'' := Num 2),
             (\<lambda>c. NaN)(''tco2'' := Num 30, ''tco2f'' := Num 4)])
       = [Num 10, Num 20, NaN]"
proof -
  have a: "select_good gd
             = filter (\<lambda>r. \<forall>c \<in> set required_vars. r c \<noteq> NaN) (map quality_mask gd)"
    unfolding select_good_def six_masks
    by (simp add: dropna_def required_vars_def)
  have b: "quality_mask r col = (if r flag = Num 2 then r col else NaN)"
    if "(col, flag) \<in> set flag_pairs" for r col flag
  proof -
    from that have "map_of flag_pairs col = Some flag"
      by (intro map_of_is_SomeI) (simp_all add: flag_pairs_def)
    then show ?thesis by (simp add: quality_mask_def)
  qed
  have c: "quality_mask r c = r c" if "c \<notin> fst ` set flag_pairs" for r c
  proof -
    from that have "map_of flag_pairs c = None" by (simp add: map_of_eq_None_iff)
    then show ?thesis by (simp add: quality_mask_def)
  qed
  have d: "map (\<lambda>r. r ''tco2'')
         (loc_set_nan ''tco2f'' ''tco2''
            [(\<lambda>c. NaN)(''tco2'' := Num 10, ''tco2f'' := Num 2),
             (\<lambda>c. NaN)(''tco2'' := Num 20, ''tco2f'' := Num 2),
             (\<lambda>c. NaN)(''tco2'' := Num 30, ''tco2f'' := Num 4)])
       = [Num 10, Num 20, NaN]"
    by (simp add: loc_set_nan_def)
  from b have b': "\<forall>r col flag. (col, flag) \<in> set flag_pairs \<longrightarrow>
          quality_mask r col = (if r flag = Num 2 then r col else NaN)"
    by blast
  from c have c': "\<forall>r c. c \<notin> fst ` set flag_pairs \<longrightarrow> quality_mask r c = r c"
    by blast
  show ?thesis by (intro conjI) (rule a, rule b', rule c', rule d)
qed

theorem quality_filter_witness:
  "map (\<lambda>r. (r ''tco2'', r ''talk''))
     (select_good [(\<lambda>c. Num 2)(''tco2'' := Num 10),
                   (\<lambda>c. Num 2)(''tco2'' := Num 20, ''talk'' := Num 7),
                   (\<lambda>c. Num 2)(''tco2'' := Num 30, ''tco2f'' := Num 4),
                   (\<lambda>c. Num 2)(''tco2'' := Num 40, ''temperature'' := NaN)])
   = [(Num 10, Num 2), (Num 20, Num 7)]"
proof -
  let ?gd = "[(\<lambda>c. Num 2)(''tco2'' := Num 10),
              (\<lambda>c. Num 2)(''tco2'' := Num 20, ''talk'' := Num 7),
              (\<lambda>c. Num 2)(''tco2'' := Num 30, ''tco2f'' := Num 4),
              (\<lambda>c. Num 2)(''tco2'' := Num 40, ''temperature'' := NaN)] :: row list"
  from quality_filter[of ?gd]
  have "select_good ?gd
          = filter (\<lambda>r. \<forall>c \<in> set required_vars. r c \<noteq> NaN) (map quality_mask ?gd)"
    by (rule conjunct1)
  then show ?thesis
    by (simp add: required_vars_def quality_mask_def flag_pairs_def)
qed




end
